theory Spec2Isabelle
  imports Complex_Main
begin

section \<open>Materials and bodies\<close>

text \<open>
  The page \<^verbatim>\<open>src/pages/index.tsx\<close> and its variant \<^verbatim>\<open>src/unnamed/part_000\<close> drive the
  matter-js physics engine. JavaScript numbers are modelled as exact reals: every
  statement below is about the arithmetic the code writes down, not about the rounding
  of IEEE doubles. Definitions of the variant page carry the suffix \<open>_p0\<close>.
\<close>

datatype material = rubber | metal | wood | plastic

text \<open>The table \<^verbatim>\<open>const materials = { rubber: 0.9, metal: 0.2, wood: 0.5, plastic: 0.7 }\<close>.\<close>

fun materials :: "material \<Rightarrow> real" where
  "materials rubber = 0.9"
| "materials metal = 0.2"
| "materials wood = 0.5"
| "materials plastic = 0.7"

text \<open>
  The fields of a matter-js body that the pages read or write. \<open>width\<close> and \<open>height\<close>
  are the extent of the body's vertices, as \<^verbatim>\<open>Bodies.rectangle(x, y, w, h, opts)\<close> makes
  them and \<^verbatim>\<open>Body.scale\<close> changes them; a body has this one geometry only. They are
  \<open>None\<close> when the vertices are not numbers (NaN). \<open>mass\<close> is \<open>None\<close> when it is
  infinite, as the mass of a static body is. \<open>label\<close> and \<open>frictionAir\<close> are \<open>None\<close>
  where the page passes no value and the library's default applies.
\<close>

record body =
  position_x :: real
  position_y :: real
  width :: "real option"
  height :: "real option"
  isStatic :: bool
  restitution :: real
  friction :: real
  frictionAir :: "real option"
  label :: "material option"
  mass :: "real option"
  velocity_x :: real
  velocity_y :: real

text \<open>
  The library calls the pages make on a body, by their effect on the fields above.

  \<^verbatim>\<open>Bodies.rectangle(x, y, w, h, opts)\<close> builds a body at rest around \<open>(x, y)\<close>. Its
  vertices are laid out from the four corners \<open>(0, 0)\<close>, \<open>(w, 0)\<close>, \<open>(w, h)\<close>, \<open>(0, h)\<close>
  and moved about their centroid: a negative side counts by its absolute value, and with
  a side of 0 the area is 0, the centroid is \<open>0 / 0\<close> and the vertices are NaN. A
  body that is not static starts with the mass of its area at the default density
  0.001 and keeps the restitution and friction of its options; a static body has
  infinite mass, and the library sets its restitution to 0 and its friction to 1
  whatever the options say.

  \<^verbatim>\<open>Body.setMass\<close> and \<^verbatim>\<open>Body.setVelocity\<close> store their argument.
  \<^verbatim>\<open>Body.scale(body, sx, sy)\<close>, for the positive factors the pages pass, scales the
  vertices about the centre of the body (NaN vertices stay NaN) and updates its physical
  properties with them: the mass of a body that has an area follows the area, at the
  density the body has.
\<close>

definition Bodies_rectangle ::
  "real \<Rightarrow> real \<Rightarrow> real \<Rightarrow> real \<Rightarrow> bool \<Rightarrow> real \<Rightarrow> real \<Rightarrow> real option \<Rightarrow> material option \<Rightarrow> body" where
  "Bodies_rectangle x y w h static r f fa l =
     \<lparr>position_x = x, position_y = y,
      width = (if w = 0 \<or> h = 0 then None else Some \<bar>w\<bar>),
      height = (if w = 0 \<or> h = 0 then None else Some \<bar>h\<bar>),
      isStatic = static,
      restitution = (if static then 0 else r),
      friction = (if static then 1 else f),
      frictionAir = fa, label = l,
      mass = (if static then None else Some (\<bar>w * h\<bar> * 0.001)),
      velocity_x = 0, velocity_y = 0\<rparr>"

definition Body_setMass :: "body \<Rightarrow> real \<Rightarrow> body" where
  "Body_setMass b m = b\<lparr>mass := Some m\<rparr>"

definition Body_setVelocity :: "body \<Rightarrow> real \<Rightarrow> real \<Rightarrow> body" where
  "Body_setVelocity b vx vy = b\<lparr>velocity_x := vx, velocity_y := vy\<rparr>"

definition Body_scale :: "body \<Rightarrow> real \<Rightarrow> real \<Rightarrow> body" where
  "Body_scale b sx sy =
     b\<lparr>width := map_option (\<lambda>a. a * sx) (width b),
       height := map_option (\<lambda>a. a * sy) (height b),
       mass := map_option (\<lambda>m. m * (sx * sy)) (mass b)\<rparr>"

text \<open>
  \<^verbatim>\<open>createSquare(x, size, material)\<close> of \<^verbatim>\<open>pages/index.tsx\<close>; \<open>h\<close> is the scene height
  the closure reads, \<open>sz\<close> the argument \<^verbatim>\<open>size\<close>.
\<close>

definition createSquare :: "real \<Rightarrow> real \<Rightarrow> real \<Rightarrow> material \<Rightarrow> body" where
  "createSquare h x sz mat =
     (let restitution = materials mat;
          body = Bodies_rectangle x (h / 2) sz sz False restitution 0 (Some 0) (Some mat);
          m = (sz * sz) / 1000
      in Body_setMass body m)"

text \<open>
  \<^verbatim>\<open>createSquare(x, size, mass, material)\<close> of the variant page, where the mass is an
  argument (the page has a mass slider per square).
\<close>

definition createSquare_p0 :: "real \<Rightarrow> real \<Rightarrow> real \<Rightarrow> real \<Rightarrow> material \<Rightarrow> body" where
  "createSquare_p0 h x sz m mat =
     (let square = Bodies_rectangle x (h / 2) sz sz False (materials mat) 0 (Some 0) (Some mat)
      in Body_setMass square m)"

section \<open>Engine, renderer and page state\<close>

text \<open>
  Bodies, engines and renderers are JavaScript objects; they live in three stores and
  are referred to by their index there. An engine carries the ids of the bodies in its
  world, its vertical gravity (1 in a fresh engine) and the listeners the page has put
  on it: \<open>onCollisionStart\<close>, and \<open>onAfterUpdate\<close> with the \<^verbatim>\<open>left\<close> and \<^verbatim>\<open>right\<close> its
  closure holds.
\<close>

record engine =
  world :: "nat list"
  gravity_y :: real
  onCollisionStart :: bool
  onAfterUpdate :: "(nat \<times> nat) option"

record render =
  render_engine :: nat
  running :: bool
  opt_width :: real
  opt_height :: real

text \<open>
  The page: its React state, its two refs, the object stores, the engines on which a
  runner runs (\<^verbatim>\<open>Runner.run\<close>; neither page ever calls \<^verbatim>\<open>Runner.stop\<close>), the canvases
  inside the scene element, and the pending \<^verbatim>\<open>setTimeout\<close> callbacks, each the id of
  the body its closure scales back, in the order they were scheduled (all with the same
  delay of 50 ms, so they run in that order).
\<close>

record state =
  sizeLeft :: real
  sizeRight :: real
  materialLeft :: material
  materialRight :: material
  started :: bool
  velocityLeftDisplay :: real
  velocityRightDisplay :: real
  engineRef :: "nat option"
  renderRef :: "nat option"
  bodies :: "body list"
  engines :: "engine list"
  renders :: "render list"
  runners :: "nat list"
  scene :: "nat list"
  timers :: "nat list"

text \<open>The variant page has a mass per square in its React state as well.\<close>

record state_p0 = state +
  massLeft :: real
  massRight :: real

definition init :: state where
  "init = \<lparr>sizeLeft = 60, sizeRight = 60, materialLeft = rubber, materialRight = rubber,
     started = False, velocityLeftDisplay = 0, velocityRightDisplay = 0,
     engineRef = None, renderRef = None, bodies = [], engines = [], renders = [],
     runners = [], scene = [], timers = []\<rparr>"

definition init_p0 :: state_p0 where
  "init_p0 = \<lparr>sizeLeft = 60, sizeRight = 60, materialLeft = rubber, materialRight = rubber,
     started = False, velocityLeftDisplay = 0, velocityRightDisplay = 0,
     engineRef = None, renderRef = None, bodies = [], engines = [], renders = [],
     runners = [], scene = [], timers = [], massLeft = 1, massRight = 1\<rparr>"

definition Engine_create :: engine where
  "Engine_create = \<lparr>world = [], gravity_y = 1, onCollisionStart = False, onAfterUpdate = None\<rparr>"

definition upd_body :: "nat \<Rightarrow> (body \<Rightarrow> body) \<Rightarrow> 'a state_scheme \<Rightarrow> 'a state_scheme" where
  "upd_body i f s = s\<lparr>bodies := (bodies s)[i := f (bodies s ! i)]\<rparr>"

definition upd_engine :: "nat \<Rightarrow> (engine \<Rightarrow> engine) \<Rightarrow> 'a state_scheme \<Rightarrow> 'a state_scheme" where
  "upd_engine e f s = s\<lparr>engines := (engines s)[e := f (engines s ! e)]\<rparr>"

definition upd_render :: "nat \<Rightarrow> (render \<Rightarrow> render) \<Rightarrow> 'a state_scheme \<Rightarrow> 'a state_scheme" where
  "upd_render r f s = s\<lparr>renders := (renders s)[r := f (renders s ! r)]\<rparr>"

text \<open>
  The first block of both \<^verbatim>\<open>handleStart\<close> and of \<^verbatim>\<open>handleReset\<close> in \<^verbatim>\<open>pages/index.tsx\<close>:
  \<^verbatim>\<open>Render.stop\<close>, the canvas taken out of its parent, the ref set to null.
\<close>

definition clear_render :: "'a state_scheme \<Rightarrow> 'a state_scheme" where
  "clear_render s =
     (case renderRef s of
        None \<Rightarrow> s
      | Some r \<Rightarrow> (upd_render r (\<lambda>x. x\<lparr>running := False\<rparr>) s)
                     \<lparr>renderRef := None, scene := remove1 r (scene s)\<rparr>)"

text \<open>
  The second block: \<^verbatim>\<open>World.clear(world, true)\<close> keeps the static bodies of the world
  and drops the others; \<^verbatim>\<open>Engine.clear\<close> touches nothing the model tracks; the ref is
  set to null.
\<close>

definition clear_engine :: "'a state_scheme \<Rightarrow> 'a state_scheme" where
  "clear_engine s =
     (case engineRef s of
        None \<Rightarrow> s
      | Some e \<Rightarrow> (upd_engine e
                      (\<lambda>x. x\<lparr>world := filter (\<lambda>i. isStatic (bodies s ! i)) (world x)\<rparr>) s)
                     \<lparr>engineRef := None\<rparr>)"

text \<open>
  The listener of \<^verbatim>\<open>collisionStart\<close>, for one body of one pair: a non-static body
  labelled rubber is scaled by 1.2 and 0.8 and a callback scaling it by the reciprocals
  is scheduled.
\<close>

definition squish :: "nat \<Rightarrow> 'a state_scheme \<Rightarrow> 'a state_scheme" where
  "squish i s =
     (let body = bodies s ! i
      in if \<not> isStatic body \<and> label body = Some rubber
         then (upd_body i (\<lambda>b. Body_scale b 1.2 0.8) s)\<lparr>timers := timers s @ [i]\<rparr>
         else s)"

text \<open>The listener itself: every pair of the event, \<^verbatim>\<open>bodyA\<close> then \<^verbatim>\<open>bodyB\<close>.\<close>

fun collisionStart :: "(nat \<times> nat) list \<Rightarrow> 'a state_scheme \<Rightarrow> 'a state_scheme" where
  "collisionStart [] s = s"
| "collisionStart ((a, b) # pairs) s = collisionStart pairs (squish b (squish a s))"

text \<open>The callback given to \<^verbatim>\<open>setTimeout\<close>, for the body \<open>i\<close> of its closure.\<close>

definition unsquish :: "nat \<Rightarrow> 'a state_scheme \<Rightarrow> 'a state_scheme" where
  "unsquish i s = upd_body i (\<lambda>b. Body_scale b (1 / 1.2) (1 / 0.8)) s"

text \<open>The listener of \<^verbatim>\<open>afterUpdate\<close>, with the \<^verbatim>\<open>left\<close> and \<^verbatim>\<open>right\<close> of its closure.\<close>

definition afterUpdate :: "nat \<Rightarrow> nat \<Rightarrow> 'a state_scheme \<Rightarrow> 'a state_scheme" where
  "afterUpdate l r s =
     s\<lparr>velocityLeftDisplay := \<bar>velocity_x (bodies s ! l)\<bar>,
       velocityRightDisplay := \<bar>velocity_x (bodies s ! r)\<bar>\<rparr>"

section \<open>The handlers of the two pages\<close>

text \<open>
  \<^verbatim>\<open>handleStart\<close> of \<^verbatim>\<open>pages/index.tsx\<close>, statement by statement. Its two arguments are
  \<^verbatim>\<open>container.clientWidth\<close> and \<^verbatim>\<open>container.clientHeight\<close> of the scene element at the
  time of the call. The function has no branch that rejects a configuration.
\<close>

definition handleStart :: "real \<Rightarrow> real \<Rightarrow> 'a state_scheme \<Rightarrow> 'a state_scheme" where
  "handleStart clientWidth clientHeight s0 =
     (let s1 = clear_engine (clear_render s0);
          engine = length (engines s1);
          s2 = s1\<lparr>engines := engines s1 @ [Engine_create], runners := runners s1 @ [engine]\<rparr>;
          w = clientWidth;
          h = clientHeight;
          render = length (renders s2);
          s3 = s2\<lparr>renders := renders s2 @
                  [\<lparr>render_engine = engine, running = True, opt_width = w, opt_height = h\<rparr>],
                scene := scene s2 @ [render]\<rparr>;
          s4 = s3\<lparr>engineRef := Some engine, renderRef := Some render\<rparr>;
          s5 = upd_engine engine (\<lambda>x. x\<lparr>gravity_y := 0\<rparr>) s4;
          ground = Bodies_rectangle (w / 2) (h + 25) w 50 True 1 0 None None;
          ceiling = Bodies_rectangle (w / 2) (- 25) w 50 True 1 0 None None;
          leftWall = Bodies_rectangle (- 25) (h / 2) 50 h True 1 0 None None;
          rightWall = Bodies_rectangle (w + 25) (h / 2) 50 h True 1 0 None None;
          left = createSquare h (50 + sizeLeft s0 / 2) (sizeLeft s0) (materialLeft s0);
          right = createSquare h (w - 50 - sizeRight s0 / 2) (sizeRight s0) (materialRight s0);
          n = length (bodies s5);
          s6 = s5\<lparr>bodies := bodies s5 @ [ground, ceiling, leftWall, rightWall, left, right]\<rparr>;
          s7 = upd_engine engine
                 (\<lambda>x. x\<lparr>world := world x @ [n, n + 1, n + 2, n + 3, n + 4, n + 5]\<rparr>) s6;
          speed = 25;
          s8 = upd_body (n + 4) (\<lambda>b. Body_setVelocity b speed 0) s7;
          s9 = upd_body (n + 5) (\<lambda>b. Body_setVelocity b (- speed) 0) s8;
          s10 = upd_engine engine
                  (\<lambda>x. x\<lparr>onCollisionStart := True, onAfterUpdate := Some (n + 4, n + 5)\<rparr>) s9
      in s10\<lparr>started := True\<rparr>)"

text \<open>\<^verbatim>\<open>handleReset\<close> of \<^verbatim>\<open>pages/index.tsx\<close>.\<close>

definition handleReset :: "'a state_scheme \<Rightarrow> 'a state_scheme" where
  "handleReset s =
     (clear_engine (clear_render s))
       \<lparr>scene := [], velocityLeftDisplay := 0, velocityRightDisplay := 0, started := False\<rparr>"

text \<open>
  \<^verbatim>\<open>handleStart\<close> of the variant page; its arguments are \<^verbatim>\<open>window.innerWidth\<close> and
  \<^verbatim>\<open>window.innerHeight\<close>.
\<close>

definition handleStart_p0 :: "real \<Rightarrow> real \<Rightarrow> 'a state_p0_scheme \<Rightarrow> 'a state_p0_scheme" where
  "handleStart_p0 innerWidth innerHeight s0 =
     (let s1 = clear_engine (clear_render s0);
          engine = length (engines s1);
          render = length (renders s1);
          s2 = s1\<lparr>engines := engines s1 @ [Engine_create],
                renders := renders s1 @
                  [\<lparr>render_engine = engine, running = False, opt_width = innerWidth,
                    opt_height = innerHeight\<rparr>],
                scene := scene s1 @ [render]\<rparr>;
          s3 = upd_engine engine (\<lambda>x. x\<lparr>gravity_y := 0\<rparr>) s2;
          s4 = s3\<lparr>runners := runners s3 @ [engine]\<rparr>;
          s5 = upd_render render (\<lambda>x. x\<lparr>running := True\<rparr>) s4;
          s6 = s5\<lparr>engineRef := Some engine, renderRef := Some render\<rparr>;
          ground = Bodies_rectangle (innerWidth / 2) (innerHeight + 50) innerWidth 100 True 1 0 None None;
          ceiling = Bodies_rectangle (innerWidth / 2) (- 50) innerWidth 100 True 1 0 None None;
          leftWall = Bodies_rectangle (- 50) (innerHeight / 2) 100 innerHeight True 1 0 None None;
          rightWall = Bodies_rectangle (innerWidth + 50) (innerHeight / 2) 100 innerHeight True 1 0 None None;
          left = createSquare_p0 innerHeight 200 (sizeLeft s0) (massLeft s0) (materialLeft s0);
          right = createSquare_p0 innerHeight (innerWidth - 200) (sizeRight s0) (massRight s0)
                    (materialRight s0);
          n = length (bodies s6);
          s7 = s6\<lparr>bodies := bodies s6 @ [ground, ceiling, leftWall, rightWall, left, right]\<rparr>;
          s8 = upd_engine engine
                 (\<lambda>x. x\<lparr>world := world x @ [n, n + 1, n + 2, n + 3, n + 4, n + 5]\<rparr>) s7;
          speed = 15;
          s9 = upd_body (n + 4) (\<lambda>b. Body_setVelocity b speed 0) s8;
          s10 = upd_body (n + 5) (\<lambda>b. Body_setVelocity b (- speed) 0) s9;
          s11 = upd_engine engine
                  (\<lambda>x. x\<lparr>onCollisionStart := True, onAfterUpdate := Some (n + 4, n + 5)\<rparr>) s10
      in s11\<lparr>started := True\<rparr>)"

text \<open>\<^verbatim>\<open>handleReset\<close> of the variant page: the engine, the renderer and the refs are not touched.\<close>

definition handleReset_p0 :: "'a state_p0_scheme \<Rightarrow> 'a state_p0_scheme" where
  "handleReset_p0 s =
     s\<lparr>scene := [], velocityLeftDisplay := 0, velocityRightDisplay := 0, started := False\<rparr>"

section \<open>Events\<close>

text \<open>
  What can happen to a page. The user moves a slider of the form or picks a material:
  the size sliders are range inputs with \<^verbatim>\<open>min="30" max="150"\<close>, the mass sliders of the
  variant page with \<^verbatim>\<open>min="1" max="10"\<close>, both in whole steps, and the options of a
  material select are the four keys of the table. The user clicks Start, with the size
  of the scene at that moment (the form is on the page while \<open>started\<close> is false and,
  fading out, for a moment after, so the model lets the form be used in every state),
  or clicks Reset (the button exists while \<open>started\<close> is true). The JavaScript runtime
  and the engine act on their own: an engine with a running runner fires
  \<^verbatim>\<open>collisionStart\<close> for pairs of bodies of its world and \<^verbatim>\<open>afterUpdate\<close>, and moves a
  non-static body of its world (the integration and collision response of matter-js,
  which this repository does not contain: any new position and velocity); the oldest
  pending timeout runs. An event that cannot happen in a state yields \<open>None\<close>.
\<close>

datatype event =
    SetSizeLeft nat
  | SetSizeRight nat
  | SetMassLeft nat
  | SetMassRight nat
  | SetMaterialLeft material
  | SetMaterialRight material
  | ClickStart real real
  | ClickReset
  | CollisionStart nat "(nat \<times> nat) list"
  | AfterUpdate nat
  | Timeout
  | Integrate nat nat real real real real

fun engine_event :: "event \<Rightarrow> 'a state_scheme \<Rightarrow> 'a state_scheme option" where
  "engine_event (CollisionStart e pairs) s =
     (if e \<in> set (runners s) \<and> onCollisionStart (engines s ! e)
         \<and> list_all (\<lambda>(a, b). a \<in> set (world (engines s ! e)) \<and> b \<in> set (world (engines s ! e))) pairs
      then Some (collisionStart pairs s) else None)"
| "engine_event (AfterUpdate e) s =
     (if e \<in> set (runners s)
      then (case onAfterUpdate (engines s ! e) of
              None \<Rightarrow> None
            | Some (l, r) \<Rightarrow> Some (afterUpdate l r s))
      else None)"
| "engine_event Timeout s =
     (case timers s of
        [] \<Rightarrow> None
      | i # ts \<Rightarrow> Some (unsquish i (s\<lparr>timers := ts\<rparr>)))"
| "engine_event (Integrate e i x y vx vy) s =
     (if e \<in> set (runners s) \<and> i \<in> set (world (engines s ! e)) \<and> \<not> isStatic (bodies s ! i)
      then Some (upd_body i
                  (\<lambda>b. b\<lparr>position_x := x, position_y := y, velocity_x := vx, velocity_y := vy\<rparr>) s)
      else None)"
| "engine_event ev s = None"

text \<open>
  The form, shared by the two pages but for the mass sliders: \<^verbatim>\<open>setSizeLeft(+e.target.value)\<close>
  and its like, with the values the inputs can have.
\<close>

fun form_event :: "event \<Rightarrow> 'a state_scheme \<Rightarrow> 'a state_scheme option" where
  "form_event (SetSizeLeft v) s =
     (if 30 \<le> v \<and> v \<le> 150 then Some (s\<lparr>sizeLeft := real v\<rparr>) else None)"
| "form_event (SetSizeRight v) s =
     (if 30 \<le> v \<and> v \<le> 150 then Some (s\<lparr>sizeRight := real v\<rparr>) else None)"
| "form_event (SetMaterialLeft m) s = Some (s\<lparr>materialLeft := m\<rparr>)"
| "form_event (SetMaterialRight m) s = Some (s\<lparr>materialRight := m\<rparr>)"
| "form_event ev s = engine_event ev s"

fun exec :: "event \<Rightarrow> state \<Rightarrow> state option" where
  "exec (ClickStart w h) s = Some (handleStart w h s)"
| "exec ClickReset s = (if started s then Some (handleReset s) else None)"
| "exec ev s = form_event ev s"

fun exec_p0 :: "event \<Rightarrow> state_p0 \<Rightarrow> state_p0 option" where
  "exec_p0 (ClickStart w h) s = Some (handleStart_p0 w h s)"
| "exec_p0 ClickReset s = (if started s then Some (handleReset_p0 s) else None)"
| "exec_p0 (SetMassLeft v) s =
     (if 1 \<le> v \<and> v \<le> 10 then Some (s\<lparr>massLeft := real v\<rparr>) else None)"
| "exec_p0 (SetMassRight v) s =
     (if 1 \<le> v \<and> v \<le> 10 then Some (s\<lparr>massRight := real v\<rparr>) else None)"
| "exec_p0 ev s = form_event ev s"


text \<open>A sequence of events, from the left; \<open>None\<close> when one of them cannot happen.\<close>

fun run :: "event list \<Rightarrow> state \<Rightarrow> state option" where
  "run [] s = Some s"
| "run (ev # evs) s = (case exec ev s of None \<Rightarrow> None | Some s' \<Rightarrow> run evs s')"

fun run_p0 :: "event list \<Rightarrow> state_p0 \<Rightarrow> state_p0 option" where
  "run_p0 [] s = Some s"
| "run_p0 (ev # evs) s = (case exec_p0 ev s of None \<Rightarrow> None | Some s' \<Rightarrow> run_p0 evs s')"

section \<open>Auxiliary facts\<close>

lemmas model_defs =
  init_def init_p0_def handleStart_def handleStart_p0_def handleReset_def handleReset_p0_def
  clear_render_def clear_engine_def Engine_create_def upd_engine_def upd_body_def upd_render_def
  createSquare_def createSquare_p0_def Bodies_rectangle_def Body_setMass_def Body_setVelocity_def
  Body_scale_def squish_def unsquish_def afterUpdate_def Let_def

lemma Body_scale_inverse: "Body_scale (Body_scale b 1.2 0.8) (1 / 1.2) (1 / 0.8) = b"
  by (cases "mass b"; cases "width b"; cases "height b") (simp_all add: Body_scale_def)

lemma Body_scale_inverse_norm: "Body_scale (Body_scale b (6 / 5) (4 / 5)) (5 / 6) (5 / 4) = b"
  using Body_scale_inverse [of b] by simp

lemma bodies_clear: "bodies (clear_engine (clear_render s)) = bodies s"
  by (simp add: clear_engine_def clear_render_def upd_engine_def upd_render_def
      split: option.splits)

lemma timers_clear: "timers (clear_engine (clear_render s)) = timers s"
  by (simp add: clear_engine_def clear_render_def upd_engine_def upd_render_def
      split: option.splits)


lemma length_engines_clear:
  "length (engines (clear_engine (clear_render s))) = length (engines s)"
  by (simp add: clear_engine_def clear_render_def upd_engine_def upd_render_def
      split: option.splits)

lemma update_tail4: "(xs @ [a, b, c, d, e, f])[length xs + 4 := v] = xs @ [a, b, c, d, v, f]"
  by (simp add: list_update_append eval_nat_numeral)

lemma update_tail5: "(xs @ [a, b, c, d, e, f])[length xs + 5 := v] = xs @ [a, b, c, d, e, v]"
  by (simp add: list_update_append eval_nat_numeral)

lemma nth_tail4: "(xs @ [a, b, c, d, e, f]) ! (length xs + 4) = e"
  by (simp add: nth_append eval_nat_numeral)

lemma nth_tail5: "(xs @ [a, b, c, d, e, f]) ! (length xs + 5) = f"
  by (simp add: nth_append eval_nat_numeral)

text \<open>The bodies \<^verbatim>\<open>handleStart\<close> creates: four walls, then the left and the right square.\<close>

lemma bodies_handleStart:
  "bodies (handleStart w h s) = bodies s @
     [Bodies_rectangle (w / 2) (h + 25) w 50 True 1 0 None None,
      Bodies_rectangle (w / 2) (- 25) w 50 True 1 0 None None,
      Bodies_rectangle (- 25) (h / 2) 50 h True 1 0 None None,
      Bodies_rectangle (w + 25) (h / 2) 50 h True 1 0 None None,
      Body_setVelocity (createSquare h (50 + sizeLeft s / 2) (sizeLeft s) (materialLeft s)) 25 0,
      Body_setVelocity (createSquare h (w - 50 - sizeRight s / 2) (sizeRight s) (materialRight s))
        (- 25) 0]"
  by (simp add: handleStart_def Let_def upd_engine_def upd_body_def bodies_clear
      update_tail4 update_tail5 nth_tail4 nth_tail5)

lemma bodies_handleStart_p0:
  "bodies (handleStart_p0 w h s) = bodies s @
     [Bodies_rectangle (w / 2) (h + 50) w 100 True 1 0 None None,
      Bodies_rectangle (w / 2) (- 50) w 100 True 1 0 None None,
      Bodies_rectangle (- 50) (h / 2) 100 h True 1 0 None None,
      Bodies_rectangle (w + 50) (h / 2) 100 h True 1 0 None None,
      Body_setVelocity (createSquare_p0 h 200 (sizeLeft s) (massLeft s) (materialLeft s)) 15 0,
      Body_setVelocity (createSquare_p0 h (w - 200) (sizeRight s) (massRight s) (materialRight s))
        (- 15) 0]"
  by (simp add: handleStart_p0_def Let_def upd_engine_def upd_body_def upd_render_def
      bodies_clear update_tail4 update_tail5 nth_tail4 nth_tail5)





lemma new_engine_handleStart:
  "engines (handleStart w h s) ! length (engines s) =
     \<lparr>world = [length (bodies s), length (bodies s) + 1, length (bodies s) + 2,
               length (bodies s) + 3, length (bodies s) + 4, length (bodies s) + 5],
       gravity_y = 0, onCollisionStart = True,
       onAfterUpdate = Some (length (bodies s) + 4, length (bodies s) + 5)\<rparr>"
  by (simp add: handleStart_def Let_def upd_engine_def upd_body_def Engine_create_def
      bodies_clear length_engines_clear nth_append)


lemma squish_rubber:
  assumes "\<not> isStatic (bodies s ! i)" and "label (bodies s ! i) = Some rubber"
  shows "squish i s = (upd_body i (\<lambda>b. Body_scale b 1.2 0.8) s)\<lparr>timers := timers s @ [i]\<rparr>"
  using assms by (simp add: squish_def)

lemma bodies_squish:
  "bodies (squish i s) =
     (bodies s)[i := (if \<not> isStatic (bodies s ! i) \<and> label (bodies s ! i) = Some rubber
                      then Body_scale (bodies s ! i) 1.2 0.8 else bodies s ! i)]"
  by (simp add: squish_def upd_body_def)

text \<open>One pair of two different bodies: each is scaled by its own material alone.\<close>

lemma collision_of_two:
  assumes "a < length (bodies u)" and "b < length (bodies u)" and "a \<noteq> b"
  shows "bodies (collisionStart [(a, b)] u) ! a =
           (if \<not> isStatic (bodies u ! a) \<and> label (bodies u ! a) = Some rubber
            then Body_scale (bodies u ! a) 1.2 0.8 else bodies u ! a)"
    and "bodies (collisionStart [(a, b)] u) ! b =
           (if \<not> isStatic (bodies u ! b) \<and> label (bodies u ! b) = Some rubber
            then Body_scale (bodies u ! b) 1.2 0.8 else bodies u ! b)"
proof -
  have first: "bodies (squish a u) ! a =
      (if \<not> isStatic (bodies u ! a) \<and> label (bodies u ! a) = Some rubber
       then Body_scale (bodies u ! a) 1.2 0.8 else bodies u ! a)"
    "bodies (squish a u) ! b = bodies u ! b"
    "length (bodies (squish a u)) = length (bodies u)"
    using assms by (simp_all add: bodies_squish)
  have second: "bodies (squish b (squish a u)) =
      (bodies (squish a u))[b := (if \<not> isStatic (bodies u ! b) \<and> label (bodies u ! b) = Some rubber
                      then Body_scale (bodies u ! b) 1.2 0.8 else bodies u ! b)]"
    by (simp only: bodies_squish [of b "squish a u"] first(2))
  show "bodies (collisionStart [(a, b)] u) ! a =
           (if \<not> isStatic (bodies u ! a) \<and> label (bodies u ! a) = Some rubber
            then Body_scale (bodies u ! a) 1.2 0.8 else bodies u ! a)"
    using assms by (simp add: second first)
  show "bodies (collisionStart [(a, b)] u) ! b =
           (if \<not> isStatic (bodies u ! b) \<and> label (bodies u ! b) = Some rubber
            then Body_scale (bodies u ! b) 1.2 0.8 else bodies u ! b)"
    using assms by (simp add: second first)
qed

lemma handleReset_idem: "handleReset (handleReset s) = handleReset s"
  by (simp add: handleReset_def clear_engine_def clear_render_def upd_engine_def upd_render_def
      split: option.splits)












text \<open>
  What the pages themselves fix about a collision of the two squares: each square
  carries the restitution of its material, and the engine has no vertical gravity. How
  two restitutions combine and how velocities change in a collision is computed inside
  matter-js.
\<close>

lemma restitution_at_creation:
  "restitution (bodies (handleStart w h s) ! (length (bodies s) + 4)) = materials (materialLeft s) \<and>
   restitution (bodies (handleStart w h s) ! (length (bodies s) + 5)) = materials (materialRight s)"
  by (simp add: bodies_handleStart nth_tail4 nth_tail5 Body_setVelocity_def Body_setMass_def
      createSquare_def Bodies_rectangle_def)

lemma gravity_at_creation:
  "gravity_y (engines (handleStart w h s) ! length (engines s)) = 0"
  by (simp add: new_engine_handleStart)

section \<open>Mass and launch velocity (C3, C8)\<close>

text \<open>
  C3, as stated, fails on the variant page: there the mass of a square is the value of
  its mass slider, whatever its size. With the initial configuration (size 60, mass 1)
  the left square has mass 1 and not \<open>60\<^sup>2 / 1000\<close>, and moving the mass slider to 2
  changes the mass while the size stays 60.
\<close>

theorem C3_counterexample:
  "width (bodies (handleStart_p0 800 400 init_p0) ! 4) = Some 60 \<and>
   mass (bodies (handleStart_p0 800 400 init_p0) ! 4) = Some 1 \<and>
   mass (bodies (handleStart_p0 800 400 init_p0) ! 4) \<noteq> Some (60 * 60 / 1000) \<and>
   width (bodies (handleStart_p0 800 400 (init_p0\<lparr>massLeft := 2\<rparr>)) ! 4) = Some 60 \<and>
   mass (bodies (handleStart_p0 800 400 (init_p0\<lparr>massLeft := 2\<rparr>)) ! 4) = Some 2"
  by (simp add: model_defs)

text \<open>
  C3, amended: in \<^verbatim>\<open>pages/index.tsx\<close> each of the two squares is created with mass
  \<open>size\<^sup>2 / 1000\<close> of its configured size, which is strictly increasing over the
  non-negative sizes; in the variant page each square is created with the mass of its
  own mass slider, independent of its size.
\<close>

theorem C3_mass_at_creation:
  "mass (bodies (handleStart w h s) ! (length (bodies s) + 4)) = Some (sizeLeft s * sizeLeft s / 1000) \<and>
   mass (bodies (handleStart w h s) ! (length (bodies s) + 5)) = Some (sizeRight s * sizeRight s / 1000) \<and>
   (0 \<le> a \<and> a < b \<longrightarrow>
      the (mass (createSquare h1 x1 a m1)) < the (mass (createSquare h2 x2 b m2))) \<and>
   mass (bodies (handleStart_p0 w h t) ! (length (bodies t) + 4)) = Some (massLeft t) \<and>
   mass (bodies (handleStart_p0 w h t) ! (length (bodies t) + 5)) = Some (massRight t)"
proof -
  have mono: "a * a < b * b" if "0 \<le> a" and "a < b"
    using that by (simp add: mult_strict_mono')
  have created: "mass (createSquare h x a m) = Some (a * a / 1000)" for h x a m
    by (simp add: createSquare_def Bodies_rectangle_def Body_setMass_def)
  have created_p0: "mass (createSquare_p0 h x a k m) = Some k" for h x a k m
    by (simp add: createSquare_p0_def Bodies_rectangle_def Body_setMass_def)
  show ?thesis
    using mono
    by (simp add: bodies_handleStart bodies_handleStart_p0 nth_tail4 nth_tail5
        Body_setVelocity_def created created_p0)
qed

theorem C3_mass_at_creation_witness:
  "mass (bodies (handleStart 800 400 init) ! 4) = Some 3.6 \<and>
   mass (bodies (handleStart 800 400 (init\<lparr>sizeRight := 150\<rparr>)) ! 5) = Some 22.5 \<and>
   (0::real) \<le> 30 \<and> (30::real) < 150 \<and>
   the (mass (createSquare 400 65 30 metal)) < the (mass (createSquare 400 675 150 wood)) \<and>
   mass (bodies (handleStart_p0 800 400 init_p0) ! 4) = Some 1"
  using C3_mass_at_creation [where w = 800 and h = 400 and s = init and a = 30 and b = 150
      and ?h1.0 = 400 and ?x1.0 = 65 and ?m1.0 = metal and ?h2.0 = 400 and ?x2.0 = 675
      and ?m2.0 = wood and t = init_p0]
    C3_mass_at_creation [where w = 800 and h = 400 and s = "init\<lparr>sizeRight := 150\<rparr>"
      and a = 30 and b = 150 and t = init_p0]
  by (simp add: init_def init_p0_def)

text \<open>
  C8, as stated, fails on the variant page, whose launch speed is 15 and not 25.
\<close>

theorem C8_counterexample:
  "velocity_x (bodies (handleStart_p0 800 400 init_p0) ! 4) = 15 \<and>
   velocity_x (bodies (handleStart_p0 800 400 init_p0) ! 4) \<noteq> 25 \<and>
   velocity_x (bodies (handleStart_p0 800 400 init_p0) ! 5) = - 15"
  by (simp add: model_defs)

text \<open>
  C8, amended: for every configuration and scene size, \<^verbatim>\<open>handleStart\<close> leaves the two
  squares with zero vertical velocity and equal, opposite horizontal velocities: +25
  for the left and -25 for the right square in \<^verbatim>\<open>pages/index.tsx\<close>, +15 and -15 in the
  variant page.
\<close>

theorem C8_launch_velocities:
  "velocity_x (bodies (handleStart w h s) ! (length (bodies s) + 4)) = 25 \<and>
   velocity_y (bodies (handleStart w h s) ! (length (bodies s) + 4)) = 0 \<and>
   velocity_x (bodies (handleStart w h s) ! (length (bodies s) + 5)) = - 25 \<and>
   velocity_y (bodies (handleStart w h s) ! (length (bodies s) + 5)) = 0 \<and>
   velocity_x (bodies (handleStart_p0 w h t) ! (length (bodies t) + 4)) = 15 \<and>
   velocity_y (bodies (handleStart_p0 w h t) ! (length (bodies t) + 4)) = 0 \<and>
   velocity_x (bodies (handleStart_p0 w h t) ! (length (bodies t) + 5)) = - 15 \<and>
   velocity_y (bodies (handleStart_p0 w h t) ! (length (bodies t) + 5)) = 0"
  by (simp add: bodies_handleStart bodies_handleStart_p0 nth_tail4 nth_tail5
      Body_setVelocity_def)

section \<open>Configuration is not validated (C10)\<close>




section \<open>The squish (C2, C6, C7)\<close>

text \<open>
  C2, as stated, fails: the listener scales the very body the engine collides. After
  Start with the initial configuration (two rubber squares of size 60) and the
  collision of the two squares, the left square is 72 wide and 48 high, where it was 60
  by 60 before the collision.
\<close>

theorem C2_counterexample:
  "width (bodies (the (run [ClickStart 800 400] init)) ! 4) = Some 60 \<and>
   height (bodies (the (run [ClickStart 800 400] init)) ! 4) = Some 60 \<and>
   run [ClickStart 800 400, CollisionStart 0 [(4, 5)]] init \<noteq> None \<and>
   width (bodies (the (run [ClickStart 800 400, CollisionStart 0 [(4, 5)]] init)) ! 4) = Some 72 \<and>
   height (bodies (the (run [ClickStart 800 400, CollisionStart 0 [(4, 5)]] init)) ! 4) = Some 48"
  by (simp add: model_defs)

text \<open>
  C2, amended: a body has one geometry, the one the engine collides, and each squish
  changes it. For one body of a colliding pair the listener replaces a non-static
  rubber body by that body scaled by 1.2 horizontally and 0.8 vertically, and leaves
  every other body as it is. In particular, on either page and for all positive sizes,
  right after the first collision of the two squares that follows Start a rubber
  square measures 1.2 and 0.8 times its configured size, and a square of another
  material its configured size.
\<close>

theorem C2_squish_scales_the_body:
  "bodies (squish i s) =
     (bodies s)[i := (if \<not> isStatic (bodies s ! i) \<and> label (bodies s ! i) = Some rubber
                      then Body_scale (bodies s ! i) 1.2 0.8 else bodies s ! i)] \<and>
   width (Body_scale b 1.2 0.8) = map_option (\<lambda>a. a * 1.2) (width b) \<and>
   height (Body_scale b 1.2 0.8) = map_option (\<lambda>a. a * 0.8) (height b) \<and>
   (0 < sizeLeft t \<longrightarrow>
      width (bodies (collisionStart [(length (bodies t) + 4, length (bodies t) + 5)]
               (handleStart w h t)) ! (length (bodies t) + 4))
        = Some (if materialLeft t = rubber then sizeLeft t * 1.2 else sizeLeft t) \<and>
      height (bodies (collisionStart [(length (bodies t) + 4, length (bodies t) + 5)]
               (handleStart w h t)) ! (length (bodies t) + 4))
        = Some (if materialLeft t = rubber then sizeLeft t * 0.8 else sizeLeft t)) \<and>
   (0 < sizeRight t \<longrightarrow>
      width (bodies (collisionStart [(length (bodies t) + 4, length (bodies t) + 5)]
               (handleStart w h t)) ! (length (bodies t) + 5))
        = Some (if materialRight t = rubber then sizeRight t * 1.2 else sizeRight t) \<and>
      height (bodies (collisionStart [(length (bodies t) + 4, length (bodies t) + 5)]
               (handleStart w h t)) ! (length (bodies t) + 5))
        = Some (if materialRight t = rubber then sizeRight t * 0.8 else sizeRight t)) \<and>
   (0 < sizeLeft u \<longrightarrow>
      width (bodies (collisionStart [(length (bodies u) + 4, length (bodies u) + 5)]
               (handleStart_p0 w h u)) ! (length (bodies u) + 4))
        = Some (if materialLeft u = rubber then sizeLeft u * 1.2 else sizeLeft u) \<and>
      height (bodies (collisionStart [(length (bodies u) + 4, length (bodies u) + 5)]
               (handleStart_p0 w h u)) ! (length (bodies u) + 4))
        = Some (if materialLeft u = rubber then sizeLeft u * 0.8 else sizeLeft u)) \<and>
   (0 < sizeRight u \<longrightarrow>
      width (bodies (collisionStart [(length (bodies u) + 4, length (bodies u) + 5)]
               (handleStart_p0 w h u)) ! (length (bodies u) + 5))
        = Some (if materialRight u = rubber then sizeRight u * 1.2 else sizeRight u) \<and>
      height (bodies (collisionStart [(length (bodies u) + 4, length (bodies u) + 5)]
               (handleStart_p0 w h u)) ! (length (bodies u) + 5))
        = Some (if materialRight u = rubber then sizeRight u * 0.8 else sizeRight u))"
proof -
  have square: "\<not> isStatic (Body_setVelocity (createSquare h x z m) vx vy)"
    "label (Body_setVelocity (createSquare h x z m) vx vy) = Some m"
    "0 < z \<Longrightarrow> width (Body_setVelocity (createSquare h x z m) vx vy) = Some z"
    "0 < z \<Longrightarrow> height (Body_setVelocity (createSquare h x z m) vx vy) = Some z"
    for h x z m vx vy
    by (simp_all add: createSquare_def Bodies_rectangle_def Body_setMass_def Body_setVelocity_def)
  have square_p0: "\<not> isStatic (Body_setVelocity (createSquare_p0 h x z k m) vx vy)"
    "label (Body_setVelocity (createSquare_p0 h x z k m) vx vy) = Some m"
    "0 < z \<Longrightarrow> width (Body_setVelocity (createSquare_p0 h x z k m) vx vy) = Some z"
    "0 < z \<Longrightarrow> height (Body_setVelocity (createSquare_p0 h x z k m) vx vy) = Some z"
    for h x z k m vx vy
    by (simp_all add: createSquare_p0_def Bodies_rectangle_def Body_setMass_def
        Body_setVelocity_def)
  have scaled: "width (Body_scale b 1.2 0.8) = map_option (\<lambda>a. a * 1.2) (width b)"
    "height (Body_scale b 1.2 0.8) = map_option (\<lambda>a. a * 0.8) (height b)" for b
    by (simp_all add: Body_scale_def)
  let ?n = "length (bodies t)" and ?k = "length (bodies u)"
  have len: "?n + 4 < length (bodies (handleStart w h t))"
    "?n + 5 < length (bodies (handleStart w h t))" "?n + 4 \<noteq> ?n + 5"
    "?k + 4 < length (bodies (handleStart_p0 w h u))"
    "?k + 5 < length (bodies (handleStart_p0 w h u))" "?k + 4 \<noteq> ?k + 5"
    by (simp_all add: bodies_handleStart bodies_handleStart_p0)
  have at: "bodies (handleStart w h t) ! (?n + 4) =
      Body_setVelocity (createSquare h (50 + sizeLeft t / 2) (sizeLeft t) (materialLeft t)) 25 0"
    "bodies (handleStart w h t) ! (?n + 5) =
      Body_setVelocity (createSquare h (w - 50 - sizeRight t / 2) (sizeRight t) (materialRight t))
        (- 25) 0"
    "bodies (handleStart_p0 w h u) ! (?k + 4) =
      Body_setVelocity (createSquare_p0 h 200 (sizeLeft u) (massLeft u) (materialLeft u)) 15 0"
    "bodies (handleStart_p0 w h u) ! (?k + 5) =
      Body_setVelocity (createSquare_p0 h (w - 200) (sizeRight u) (massRight u) (materialRight u))
        (- 15) 0"
    by (simp_all add: bodies_handleStart bodies_handleStart_p0 nth_tail4 nth_tail5)
  note after = collision_of_two [OF len(1) len(2) len(3)] collision_of_two [OF len(4) len(5) len(6)]
  have left: "0 < sizeLeft t \<longrightarrow>
      width (bodies (collisionStart [(?n + 4, ?n + 5)] (handleStart w h t)) ! (?n + 4))
        = Some (if materialLeft t = rubber then sizeLeft t * 1.2 else sizeLeft t) \<and>
      height (bodies (collisionStart [(?n + 4, ?n + 5)] (handleStart w h t)) ! (?n + 4))
        = Some (if materialLeft t = rubber then sizeLeft t * 0.8 else sizeLeft t)"
    unfolding after at by (simp add: square Body_scale_def)
  have right: "0 < sizeRight t \<longrightarrow>
      width (bodies (collisionStart [(?n + 4, ?n + 5)] (handleStart w h t)) ! (?n + 5))
        = Some (if materialRight t = rubber then sizeRight t * 1.2 else sizeRight t) \<and>
      height (bodies (collisionStart [(?n + 4, ?n + 5)] (handleStart w h t)) ! (?n + 5))
        = Some (if materialRight t = rubber then sizeRight t * 0.8 else sizeRight t)"
    unfolding after at by (simp add: square Body_scale_def)
  have left_p0: "0 < sizeLeft u \<longrightarrow>
      width (bodies (collisionStart [(?k + 4, ?k + 5)] (handleStart_p0 w h u)) ! (?k + 4))
        = Some (if materialLeft u = rubber then sizeLeft u * 1.2 else sizeLeft u) \<and>
      height (bodies (collisionStart [(?k + 4, ?k + 5)] (handleStart_p0 w h u)) ! (?k + 4))
        = Some (if materialLeft u = rubber then sizeLeft u * 0.8 else sizeLeft u)"
    unfolding after at by (simp add: square_p0 Body_scale_def)
  have right_p0: "0 < sizeRight u \<longrightarrow>
      width (bodies (collisionStart [(?k + 4, ?k + 5)] (handleStart_p0 w h u)) ! (?k + 5))
        = Some (if materialRight u = rubber then sizeRight u * 1.2 else sizeRight u) \<and>
      height (bodies (collisionStart [(?k + 4, ?k + 5)] (handleStart_p0 w h u)) ! (?k + 5))
        = Some (if materialRight u = rubber then sizeRight u * 0.8 else sizeRight u)"
    unfolding after at by (simp add: square_p0 Body_scale_def)
  show ?thesis
    by (intro conjI) (rule bodies_squish scaled left right left_p0 right_p0)+
qed

theorem C2_squish_scales_the_body_witness:
  "0 < sizeLeft init \<and> 0 < sizeRight (init\<lparr>materialRight := metal\<rparr>) \<and>
   0 < sizeLeft init_p0 \<and>
   width (bodies (collisionStart [(4, 5)] (handleStart 800 400 init)) ! 4) = Some 72 \<and>
   height (bodies (collisionStart [(4, 5)] (handleStart 800 400 init)) ! 4) = Some 48 \<and>
   width (bodies (collisionStart [(4, 5)] (handleStart 800 400 (init\<lparr>materialRight := metal\<rparr>))) ! 5)
     = Some 60 \<and>
   width (bodies (collisionStart [(4, 5)] (handleStart_p0 800 400 init_p0)) ! 4) = Some 72 \<and>
   height (bodies (collisionStart [(4, 5)] (handleStart_p0 800 400 init_p0)) ! 4) = Some 48"
proof -
  have vals: "length (bodies init) = 0" "sizeLeft init = 60" "sizeRight init = 60"
    "materialLeft init = rubber" "materialRight init = rubber"
    "length (bodies init_p0) = 0" "sizeLeft init_p0 = 60" "materialLeft init_p0 = rubber"
    by (simp_all add: init_def init_p0_def)
  show ?thesis
    using C2_squish_scales_the_body [where t = init and u = init_p0 and w = 800 and h = 400
        and i = 0 and s = init and b = "bodies (handleStart 800 400 init) ! 4"]
      C2_squish_scales_the_body [where t = "init\<lparr>materialRight := metal\<rparr>" and u = init_p0
        and w = 800 and h = 400 and i = 0 and s = init
        and b = "bodies (handleStart 800 400 init) ! 4"]
    by (simp add: vals del: collisionStart.simps)
qed

text \<open>
  C6, as stated, fails: a second collision of a squished body scales it again. After
  Start with the initial configuration, the collision of the two squares and, before any
  timeout has run, a collision of the left square with the left wall, the left square
  is \<open>60 \<times> 1.2 \<times> 1.2 = 86.4\<close> wide and \<open>60 \<times> 0.8 \<times> 0.8 = 38.4\<close> high, and it has two
  callbacks pending: no timer was restarted.
\<close>

theorem C6_counterexample:
  "run [ClickStart 800 400, CollisionStart 0 [(4, 5)], CollisionStart 0 [(2, 4)]] init \<noteq> None \<and>
   width (bodies (the (run [ClickStart 800 400, CollisionStart 0 [(4, 5)],
                            CollisionStart 0 [(2, 4)]] init)) ! 4) = Some 86.4 \<and>
   height (bodies (the (run [ClickStart 800 400, CollisionStart 0 [(4, 5)],
                             CollisionStart 0 [(2, 4)]] init)) ! 4) = Some 38.4 \<and>
   timers (the (run [ClickStart 800 400, CollisionStart 0 [(4, 5)],
                     CollisionStart 0 [(2, 4)]] init)) = [4, 5, 4]"
  by (simp add: model_defs)

text \<open>
  C6, amended: every collision of a non-static rubber body scales it by 1.2 and 0.8
  once more and schedules one more callback, squished or not. After \<open>n\<close> collisions
  with no timeout in between, its width is \<open>1.2\<^sup>n\<close> times and its height \<open>0.8\<^sup>n\<close>
  times what it was, and \<open>n\<close> more callbacks for it are pending.
\<close>

theorem C6_squish_compounds:
  assumes "i < length (bodies s)"
    and "\<not> isStatic (bodies s ! i)"
    and "label (bodies s ! i) = Some rubber"
  shows "width (bodies ((squish i ^^ n) s) ! i) = map_option (\<lambda>a. a * 1.2 ^ n) (width (bodies s ! i))
     \<and> height (bodies ((squish i ^^ n) s) ! i) = map_option (\<lambda>a. a * 0.8 ^ n) (height (bodies s ! i))
     \<and> timers ((squish i ^^ n) s) = timers s @ replicate n i
     \<and> length (bodies ((squish i ^^ n) s)) = length (bodies s)
     \<and> \<not> isStatic (bodies ((squish i ^^ n) s) ! i)
     \<and> label (bodies ((squish i ^^ n) s) ! i) = Some rubber"
  using assms
proof (induction n)
  case 0
  then show ?case by (simp add: option.map_ident)
next
  case (Suc n)
  define t where "t = (squish i ^^ n) s"
  from Suc have t: "width (bodies t ! i) = map_option (\<lambda>a. a * 1.2 ^ n) (width (bodies s ! i))"
    "height (bodies t ! i) = map_option (\<lambda>a. a * 0.8 ^ n) (height (bodies s ! i))"
    "timers t = timers s @ replicate n i"
    "length (bodies t) = length (bodies s)"
    "\<not> isStatic (bodies t ! i)" "label (bodies t ! i) = Some rubber"
    by (simp_all add: t_def)
  have step: "(squish i ^^ Suc n) s = squish i t"
    by (simp add: t_def)
  show ?case
    unfolding step using t Suc.prems(1)
    by (cases "width (bodies s ! i)"; cases "height (bodies s ! i)")
      (simp_all add: squish_rubber upd_body_def Body_scale_def replicate_append_same)
qed

theorem C6_squish_compounds_witness:
  "4 < length (bodies (handleStart 800 400 init)) \<and>
   \<not> isStatic (bodies (handleStart 800 400 init) ! 4) \<and>
   label (bodies (handleStart 800 400 init) ! 4) = Some rubber \<and>
   width (bodies ((squish 4 ^^ 3) (handleStart 800 400 init)) ! 4) = Some (60 * 1.2 ^ 3) \<and>
   height (bodies ((squish 4 ^^ 3) (handleStart 800 400 init)) ! 4) = Some (60 * 0.8 ^ 3) \<and>
   timers ((squish 4 ^^ 3) (handleStart 800 400 init)) = [4, 4, 4]"
proof -
  have start: "4 < length (bodies (handleStart 800 400 init))"
    "\<not> isStatic (bodies (handleStart 800 400 init) ! 4)"
    "label (bodies (handleStart 800 400 init) ! 4) = Some rubber"
    "width (bodies (handleStart 800 400 init) ! 4) = Some 60"
    "height (bodies (handleStart 800 400 init) ! 4) = Some 60"
    "timers (handleStart 800 400 init) = []"
    by (simp_all add: model_defs)
  show ?thesis
    using C6_squish_compounds [OF start(1-3), of 3] start
    by (simp add: eval_nat_numeral)
qed

text \<open>
  C7: on a non-static rubber body in a state with no pending timeout, the collision
  followed by its timeout gives back the very state before the collision: the scaling
  by 1.2 and 0.8 followed by the scaling by \<open>1 / 1.2\<close> and \<open>1 / 0.8\<close> restores every
  field of the body. The arithmetic is exact here; the doubles of the page agree with
  it up to rounding.
\<close>

theorem C7_squish_round_trip:
  assumes "i < length (bodies s)"
    and "\<not> isStatic (bodies s ! i)"
    and "label (bodies s ! i) = Some rubber"
    and "timers s = []"
  shows "Body_scale (Body_scale b 1.2 0.8) (1 / 1.2) (1 / 0.8) = b
     \<and> engine_event Timeout (squish i s) = Some s"
  using assms
  by (simp add: squish_rubber unsquish_def upd_body_def Body_scale_inverse_norm)

theorem C7_squish_round_trip_witness:
  "4 < length (bodies (handleStart 800 400 init)) \<and>
   \<not> isStatic (bodies (handleStart 800 400 init) ! 4) \<and>
   label (bodies (handleStart 800 400 init) ! 4) = Some rubber \<and>
   timers (handleStart 800 400 init) = [] \<and>
   width (bodies (squish 4 (handleStart 800 400 init)) ! 4) = Some 72 \<and>
   engine_event Timeout (squish 4 (handleStart 800 400 init)) = Some (handleStart 800 400 init)"
proof -
  have start: "4 < length (bodies (handleStart 800 400 init))"
    "\<not> isStatic (bodies (handleStart 800 400 init) ! 4)"
    "label (bodies (handleStart 800 400 init) ! 4) = Some rubber"
    "timers (handleStart 800 400 init) = []"
    by (simp_all add: model_defs)
  have squished: "width (bodies (squish 4 (handleStart 800 400 init)) ! 4) = Some 72"
    by (simp add: model_defs)
  show ?thesis
    using C7_squish_round_trip [OF start] start squished by simp
qed

section \<open>Reset (C4, C5)\<close>

text \<open>
  C4, as stated, fails: Reset cancels no timeout. After Start with the initial
  configuration, the collision of the two squares and Reset, both callbacks are still
  pending although the engine ref is null; the next timeout runs and scales the left
  square from 72 back to 60 wide.
\<close>

theorem C4_counterexample:
  "engineRef (the (run [ClickStart 800 400, CollisionStart 0 [(4, 5)], ClickReset] init)) = None \<and>
   timers (the (run [ClickStart 800 400, CollisionStart 0 [(4, 5)], ClickReset] init)) = [4, 5] \<and>
   width (bodies (the (run [ClickStart 800 400, CollisionStart 0 [(4, 5)], ClickReset] init)) ! 4)
     = Some 72 \<and>
   run [ClickStart 800 400, CollisionStart 0 [(4, 5)], ClickReset, Timeout] init \<noteq> None \<and>
   width (bodies (the (run [ClickStart 800 400, CollisionStart 0 [(4, 5)], ClickReset, Timeout]
                        init)) ! 4) = Some 60"
  by (simp add: model_defs)

text \<open>
  C4, amended: \<^verbatim>\<open>handleReset\<close> changes neither the pending callbacks nor any body. So
  after Reset the oldest callback pending before it still runs, and scales its body by
  \<open>1 / 1.2\<close> and \<open>1 / 0.8\<close>; when none was pending, none runs. The same holds on the
  variant page.
\<close>

theorem C4_reset_keeps_timers:
  "timers (handleReset s) = timers s \<and>
   bodies (handleReset s) = bodies s \<and>
   exec Timeout (handleReset s) =
     (case timers s of
        [] \<Rightarrow> None
      | i # ts \<Rightarrow> Some (unsquish i ((handleReset s)\<lparr>timers := ts\<rparr>))) \<and>
   timers (handleReset_p0 t) = timers t \<and>
   bodies (handleReset_p0 t) = bodies t \<and>
   exec_p0 Timeout (handleReset_p0 t) =
     (case timers t of
        [] \<Rightarrow> None
      | i # ts \<Rightarrow> Some (unsquish i ((handleReset_p0 t)\<lparr>timers := ts\<rparr>))) \<and>
   bodies (unsquish i u) = (bodies u)[i := Body_scale (bodies u ! i) (1 / 1.2) (1 / 0.8)]"
proof -
  have "timers (handleReset s) = timers s" "bodies (handleReset s) = bodies s"
    by (simp_all add: handleReset_def timers_clear bodies_clear)
  moreover have "timers (handleReset_p0 t) = timers t" "bodies (handleReset_p0 t) = bodies t"
    by (simp_all add: handleReset_p0_def)
  moreover have "bodies (unsquish i u) = (bodies u)[i := Body_scale (bodies u ! i) (1 / 1.2) (1 / 0.8)]"
    by (simp add: unsquish_def upd_body_def)
  ultimately show ?thesis
    by (simp split: list.splits)
qed

text \<open>
  C5, as stated, fails on the variant page, whose Reset only hides the scene: after
  Start and Reset the engine is still in its ref with all six bodies in its world, its
  runner still runs, and the engine goes on moving the left square.
\<close>

theorem C5_counterexample:
  "engineRef (the (run_p0 [ClickStart 800 400, ClickReset] init_p0)) = Some 0 \<and>
   world (engines (the (run_p0 [ClickStart 800 400, ClickReset] init_p0)) ! 0)
     = [0, 1, 2, 3, 4, 5] \<and>
   runners (the (run_p0 [ClickStart 800 400, ClickReset] init_p0)) = [0] \<and>
   position_x (bodies (the (run_p0 [ClickStart 800 400, ClickReset] init_p0)) ! 4) = 200 \<and>
   run_p0 [ClickStart 800 400, ClickReset, Integrate 0 4 215 200 15 0] init_p0 \<noteq> None \<and>
   position_x (bodies (the (run_p0 [ClickStart 800 400, ClickReset, Integrate 0 4 215 200 15 0]
                             init_p0)) ! 4) = 215"
  by (simp add: model_defs)

text \<open>
  C5, amended. \<^verbatim>\<open>handleReset\<close> of \<^verbatim>\<open>pages/index.tsx\<close> stops the renderer that was in
  the ref, takes the non-static bodies out of the world of the engine that was in the
  ref, sets both refs to null, empties the scene, zeroes both displays and clears
  \<open>started\<close>. \<^verbatim>\<open>handleReset\<close> of the variant page empties the scene, zeroes the displays
  and clears \<open>started\<close>, and leaves refs, engines, renderers, bodies and runners as they
  are. On both pages a second Reset changes nothing, and Reset changes nothing in any
  state where no world exists: both refs null, or on the variant page whatever the
  refs, with the scene empty, the displays zero and \<open>started\<close> false.
\<close>

theorem C5_reset_effect:
  "engineRef (handleReset s) = None \<and>
   renderRef (handleReset s) = None \<and>
   scene (handleReset s) = [] \<and>
   velocityLeftDisplay (handleReset s) = 0 \<and>
   velocityRightDisplay (handleReset s) = 0 \<and>
   \<not> started (handleReset s) \<and>
   renders (handleReset s) =
     (case renderRef s of
        None \<Rightarrow> renders s
      | Some r \<Rightarrow> (renders s)[r := (renders s ! r)\<lparr>running := False\<rparr>]) \<and>
   engines (handleReset s) =
     (case engineRef s of
        None \<Rightarrow> engines s
      | Some e \<Rightarrow> (engines s)[e := (engines s ! e)
                      \<lparr>world := filter (\<lambda>i. isStatic (bodies s ! i)) (world (engines s ! e))\<rparr>]) \<and>
   handleReset (handleReset s) = handleReset s \<and>
   (engineRef s = None \<and> renderRef s = None \<and> scene s = [] \<and> velocityLeftDisplay s = 0
      \<and> velocityRightDisplay s = 0 \<and> \<not> started s \<longrightarrow> handleReset s = s) \<and>
   engineRef (handleReset_p0 t) = engineRef t \<and>
   renderRef (handleReset_p0 t) = renderRef t \<and>
   engines (handleReset_p0 t) = engines t \<and>
   renders (handleReset_p0 t) = renders t \<and>
   bodies (handleReset_p0 t) = bodies t \<and>
   runners (handleReset_p0 t) = runners t \<and>
   scene (handleReset_p0 t) = [] \<and>
   velocityLeftDisplay (handleReset_p0 t) = 0 \<and>
   velocityRightDisplay (handleReset_p0 t) = 0 \<and>
   \<not> started (handleReset_p0 t) \<and>
   handleReset_p0 (handleReset_p0 t) = handleReset_p0 t \<and>
   (scene t = [] \<and> velocityLeftDisplay t = 0 \<and> velocityRightDisplay t = 0 \<and> \<not> started t
      \<longrightarrow> handleReset_p0 t = t)"
proof -
  have refs: "engineRef (handleReset s) = None" "renderRef (handleReset s) = None"
    by (simp_all add: handleReset_def clear_engine_def clear_render_def upd_engine_def
        upd_render_def split: option.splits)
  have plain: "scene (handleReset s) = []" "velocityLeftDisplay (handleReset s) = 0"
    "velocityRightDisplay (handleReset s) = 0" "\<not> started (handleReset s)"
    by (simp_all add: handleReset_def)
  have rends: "renders (handleReset s) =
     (case renderRef s of
        None \<Rightarrow> renders s
      | Some r \<Rightarrow> (renders s)[r := (renders s ! r)\<lparr>running := False\<rparr>])"
    by (simp add: handleReset_def clear_engine_def clear_render_def upd_engine_def
        upd_render_def split: option.splits)
  have engs: "engines (handleReset s) =
     (case engineRef s of
        None \<Rightarrow> engines s
      | Some e \<Rightarrow> (engines s)[e := (engines s ! e)
                      \<lparr>world := filter (\<lambda>i. isStatic (bodies s ! i)) (world (engines s ! e))\<rparr>])"
    by (simp add: handleReset_def clear_engine_def clear_render_def upd_engine_def
        upd_render_def split: option.splits)
  have noop: "engineRef s = None \<and> renderRef s = None \<and> scene s = [] \<and> velocityLeftDisplay s = 0
      \<and> velocityRightDisplay s = 0 \<and> \<not> started s \<longrightarrow> handleReset s = s"
    by (simp add: handleReset_def clear_engine_def clear_render_def)
  have p0: "engineRef (handleReset_p0 t) = engineRef t" "renderRef (handleReset_p0 t) = renderRef t"
    "engines (handleReset_p0 t) = engines t" "renders (handleReset_p0 t) = renders t"
    "bodies (handleReset_p0 t) = bodies t" "runners (handleReset_p0 t) = runners t"
    "scene (handleReset_p0 t) = []" "velocityLeftDisplay (handleReset_p0 t) = 0"
    "velocityRightDisplay (handleReset_p0 t) = 0" "\<not> started (handleReset_p0 t)"
    "handleReset_p0 (handleReset_p0 t) = handleReset_p0 t"
    by (simp_all add: handleReset_p0_def)
  have noop_p0: "scene t = [] \<and> velocityLeftDisplay t = 0 \<and> velocityRightDisplay t = 0
      \<and> \<not> started t \<longrightarrow> handleReset_p0 t = t"
    by (simp add: handleReset_p0_def)
  show ?thesis
    by (intro conjI) (rule refs plain rends engs noop p0 noop_p0 handleReset_idem)+
qed

theorem C5_reset_effect_witness:
  "engineRef (handleReset (handleStart 800 400 init)) = None \<and>
   renderRef (handleReset (handleStart 800 400 init)) = None \<and>
   scene (handleReset (handleStart 800 400 init)) = [] \<and>
   velocityLeftDisplay (handleReset (handleStart 800 400 init)) = 0 \<and>
   velocityRightDisplay (handleReset (handleStart 800 400 init)) = 0 \<and>
   \<not> started (handleReset (handleStart 800 400 init)) \<and>
   handleReset (handleReset (handleStart 800 400 init)) = handleReset (handleStart 800 400 init) \<and>
   running (renders (handleReset (handleStart 800 400 init)) ! 0) = False \<and>
   world (engines (handleReset (handleStart 800 400 init)) ! 0) = [0, 1, 2, 3] \<and>
   scene init_p0 = [] \<and> velocityLeftDisplay init_p0 = 0 \<and> velocityRightDisplay init_p0 = 0 \<and>
   \<not> started init_p0 \<and> handleReset_p0 init_p0 = init_p0"
proof -
  have shown: "running (renders (handleReset (handleStart 800 400 init)) ! 0) = False"
    "world (engines (handleReset (handleStart 800 400 init)) ! 0) = [0, 1, 2, 3]"
    "scene init_p0 = []" "velocityLeftDisplay init_p0 = 0" "velocityRightDisplay init_p0 = 0"
    "\<not> started init_p0"
    by (simp_all add: model_defs)
  from C5_reset_effect [where s = "handleStart 800 400 init" and t = init_p0]
    C5_reset_effect [where s = "handleReset (handleStart 800 400 init)" and t = init_p0] shown
  show ?thesis
    by blast
qed

end
